theory Spec2Isabelle
  imports Complex_Main
begin

section \<open>Values the simulator works with\<close>

text \<open>
  The program under study is \<^verbatim>\<open>src/project1/virtual_device.py\<close>: a fleet of simulated
  sensors, each publishing readings on an MQTT client from a loop of its own.

  Python floats are modelled by the rational number they stand for, so \<open>round(x, n)\<close> is
  rounding of that number to \<open>n\<close> decimals with ties to the even neighbour, and an \<open>int\<close>
  that Python mixes with floats (\<open>max(0, ...)\<close>) is the rational of the same value.
\<close>

type_synonym addr = nat

datatype exn = NotImplementedError | ValueError | TransportError string

datatype json =
    JStr string
  | JNum rat
  | JInt int
  | JBool bool
  | JObj "(string \<times> json) list"

datatype payload = Json_text json

text \<open>
  \<open>json.dumps(data)\<close>: the text is represented by the document it encodes; a dict is the
  list of its items in insertion order.
\<close>

definition json_dumps :: "json \<Rightarrow> payload" where
  "json_dumps d = Json_text d"

record datetime =
  year :: nat
  month :: nat
  day :: nat
  hour :: nat
  minute :: nat
  second :: nat
  microsecond :: nat

text \<open>
  \<open>pad2 n\<close>, \<open>pad4 n\<close> and \<open>pad6 n\<close> are \<open>"%02d" % n\<close>, \<open>"%04d" % n\<close> and
  \<open>"%06d" % n\<close> for the fields of a \<open>datetime\<close>, which never have more digits than
  that (year at most 9999, microsecond at most 999999).
\<close>

definition digit_char :: "nat \<Rightarrow> char" where
  "digit_char d = ''0123456789'' ! (d mod 10)"

definition pad2 :: "nat \<Rightarrow> string" where
  "pad2 n = [digit_char (n div 10), digit_char n]"

definition pad4 :: "nat \<Rightarrow> string" where
  "pad4 n = [digit_char (n div 1000), digit_char (n div 100), digit_char (n div 10),
             digit_char n]"

definition pad6 :: "nat \<Rightarrow> string" where
  "pad6 n = [digit_char (n div 100000), digit_char (n div 10000), digit_char (n div 1000),
             digit_char (n div 100), digit_char (n div 10), digit_char n]"

text \<open>
  \<open>datetime.isoformat()\<close> of a naive datetime: \<open>YYYY-MM-DDTHH:MM:SS\<close>, followed by
  \<open>.ffffff\<close> when the microsecond is not zero.
\<close>

definition isoformat :: "datetime \<Rightarrow> string" where
  "isoformat t =
     pad4 (year t) @ ''-'' @ pad2 (month t) @ ''-'' @ pad2 (day t)
     @ ''T'' @ pad2 (hour t) @ '':'' @ pad2 (minute t) @ '':'' @ pad2 (second t)
     @ (if microsecond t \<noteq> 0 then ''.'' @ pad6 (microsecond t) else [])"

subsection \<open>The random module\<close>

text \<open>
  The generator is an entropy source read as natural numbers. \<open>random.random()\<close> returns
  \<open>k / 2^53\<close> for a 53-bit \<open>k\<close>; \<open>uniform(a, b)\<close> is \<open>a + (b - a) * random()\<close>;
  \<open>choice(seq)\<close> is \<open>seq[_randbelow(len(seq))]\<close> and \<open>randint(a, b)\<close> is
  \<open>a + _randbelow(b - a + 1)\<close>, where \<open>_randbelow(n)\<close> lies in \<open>[0, n)\<close>.
\<close>

definition random_random :: "nat \<Rightarrow> rat" where
  "random_random raw = of_nat (raw mod 2 ^ 53) / 2 ^ 53"

definition random_uniform :: "rat \<Rightarrow> rat \<Rightarrow> nat \<Rightarrow> rat" where
  "random_uniform a b raw = a + (b - a) * random_random raw"

definition randbelow :: "nat \<Rightarrow> nat \<Rightarrow> nat" where
  "randbelow n raw = raw mod n"

definition random_choice :: "'a list \<Rightarrow> nat \<Rightarrow> 'a" where
  "random_choice seq raw = seq ! randbelow (length seq) raw"

definition random_randint :: "int \<Rightarrow> int \<Rightarrow> nat \<Rightarrow> int" where
  "random_randint a b raw = a + int (randbelow (nat (b - a + 1)) raw)"

subsection \<open>round\<close>

definition round_half_even :: "rat \<Rightarrow> int" where
  "round_half_even x =
     (let f = \<lfloor>x\<rfloor>; d = x - of_int f
      in if d < 1 / 2 then f
         else if 1 / 2 < d then f + 1
         else if even f then f else f + 1)"

definition py_round :: "rat \<Rightarrow> nat \<Rightarrow> rat" where
  "py_round x n = of_int (round_half_even (x * 10 ^ n)) / 10 ^ n"

section \<open>Devices\<close>

text \<open>
  One record for the fields of \<open>VirtualDevice\<close>; the fields a subclass adds are the
  \<open>sensor\<close> component, whose constructor also says which \<open>generate_data\<close> runs. The
  \<open>mqtt_client\<close> field is the one client shared by all devices: what is published on it is
  recorded in the trace of the system and the field is left out. The \<open>thread\<close> field holds
  the index of a thread of the system.
\<close>

datatype sensor =
    Base_device
  | Temperature_humidity (base_temp: rat) (base_humidity: rat)
  | Light
  | Motion
  | Smart_switch (is_on: bool) (power_consumption: rat)

record device =
  device_id :: string
  device_type :: string
  publish_interval :: int
  is_running :: bool
  thread :: "nat option"
  sensor :: sensor

definition VirtualDevice :: "string \<Rightarrow> string \<Rightarrow> int \<Rightarrow> device" where
  "VirtualDevice did dtype interval =
     \<lparr>device_id = did, device_type = dtype, publish_interval = interval,
      is_running = False, thread = None, sensor = Base_device\<rparr>"

definition TemperatureHumiditySensor :: "string \<Rightarrow> int \<Rightarrow> device" where
  "TemperatureHumiditySensor did interval =
     (VirtualDevice did ''temperature_humidity'' interval)
       \<lparr>sensor := Temperature_humidity 25 60\<rparr>"

definition LightSensor :: "string \<Rightarrow> int \<Rightarrow> device" where
  "LightSensor did interval = (VirtualDevice did ''light'' interval)\<lparr>sensor := Light\<rparr>"

definition MotionSensor :: "string \<Rightarrow> int \<Rightarrow> device" where
  "MotionSensor did interval = (VirtualDevice did ''motion'' interval)\<lparr>sensor := Motion\<rparr>"

definition SmartSwitch :: "string \<Rightarrow> int \<Rightarrow> device" where
  "SmartSwitch did interval =
     (VirtualDevice did ''smart_switch'' interval)\<lparr>sensor := Smart_switch False 0\<rparr>"

subsection \<open>What one tick reads from outside\<close>

text \<open>
  A tick draws at most twice from the random generator and reads the clock at most twice;
  \<open>raw1\<close>, \<open>raw2\<close> and \<open>now1\<close>, \<open>now2\<close> are those reads in program order.
  \<open>publish_result\<close> is what \<open>mqtt_client.publish\<close> does on this tick: \<open>None\<close> when it
  returns, \<open>Some e\<close> when it raises \<open>e\<close>.
\<close>

record tick_env =
  raw1 :: nat
  raw2 :: nat
  now1 :: datetime
  now2 :: datetime
  publish_result :: "exn option"

definition reading :: "device \<Rightarrow> datetime \<Rightarrow> (string \<times> json) list \<Rightarrow> json" where
  "reading dev t d =
     JObj [(''device_id'', JStr (device_id dev)),
           (''device_type'', JStr (device_type dev)),
           (''timestamp'', JStr (isoformat t)),
           (''data'', JObj d)]"

definition degree_celsius :: string where
  "degree_celsius = [CHR 0xC2, CHR 0xB0, CHR ''C'']"

definition generate_temperature_humidity :: "tick_env \<Rightarrow> device \<Rightarrow> json" where
  "generate_temperature_humidity env dev =
     (let temp_variation = random_uniform (- 2) 2 (raw1 env);
          humidity_variation = random_uniform (- 5) 5 (raw2 env);
          temperature = py_round (base_temp (sensor dev) + temp_variation) 1;
          humidity =
            py_round (max 0 (min 100 (base_humidity (sensor dev) + humidity_variation))) 1
      in reading dev (now1 env)
           [(''temperature'', JNum temperature),
            (''humidity'', JNum humidity),
            (''unit_temp'', JStr degree_celsius),
            (''unit_humidity'', JStr ''%'')])"

definition generate_light :: "tick_env \<Rightarrow> device \<Rightarrow> json" where
  "generate_light env dev =
     (let current_hour = hour (now1 env);
          base_light =
            (if 6 \<le> current_hour \<and> current_hour \<le> 18
             then 500 + random_uniform (- 200) 300 (raw1 env)
             else 50 + random_uniform (- 30) 50 (raw1 env));
          light_intensity = max 0 (py_round base_light 1)
      in reading dev (now2 env)
           [(''light_intensity'', JNum light_intensity),
            (''unit'', JStr ''lux'')])"

definition generate_motion :: "tick_env \<Rightarrow> device \<Rightarrow> json" where
  "generate_motion env dev =
     (let motion_detected = random_choice [True, False] (raw1 env)
      in reading dev (now1 env)
           [(''motion_detected'', JBool motion_detected),
            (''detection_count'',
               JInt (if motion_detected then random_randint 0 5 (raw2 env) else 0))])"

definition generate_smart_switch :: "tick_env \<Rightarrow> device \<Rightarrow> json \<times> device" where
  "generate_smart_switch env dev =
     (let on1 = (if random_random (raw1 env) < 1 / 10
                 then \<not> is_on (sensor dev) else is_on (sensor dev));
          power = (if on1 then py_round (random_uniform 5 100 (raw2 env)) 2 else 0);
          dev1 = dev\<lparr>sensor := Smart_switch on1 power\<rparr>
      in (reading dev1 (now1 env)
            [(''switch_state'', JStr (if on1 then ''ON'' else ''OFF'')),
             (''power_consumption'', JNum power),
             (''unit'', JStr ''W'')],
          dev1))"

text \<open>
  \<open>generate_data\<close>, dispatched on the class of the device. The result is the exception
  raised or the reading returned, with the device as the call leaves it.
\<close>

definition generate_data :: "tick_env \<Rightarrow> device \<Rightarrow> (exn + json) \<times> device" where
  "generate_data env dev =
     (case sensor dev of
        Base_device \<Rightarrow> (Inl NotImplementedError, dev)
      | Temperature_humidity bt bh \<Rightarrow> (Inr (generate_temperature_humidity env dev), dev)
      | Light \<Rightarrow> (Inr (generate_light env dev), dev)
      | Motion \<Rightarrow> (Inr (generate_motion env dev), dev)
      | Smart_switch on p \<Rightarrow>
          (case generate_smart_switch env dev of (d, dev1) \<Rightarrow> (Inr d, dev1)))"

text \<open>
  The clock read that a reading's timestamp comes from: the light sensor reads the clock
  once for the hour and again for the timestamp, the others read it once.
\<close>

definition stamp :: "tick_env \<Rightarrow> device \<Rightarrow> datetime" where
  "stamp env dev = (if sensor dev = Light then now2 env else now1 env)"

section \<open>The publish loop\<close>

text \<open>
  What a device does that can be seen from outside: a call of \<open>mqtt_client.publish\<close>
  with its topic, payload and outcome, a log record, a \<open>time.sleep\<close>. Log records keep
  the values that the source formats into the message.
\<close>

datatype log_record =
    Device_started string
  | Device_stopped string
  | Data_sent string payload
  | Send_error string exn
  | Device_added string
  | All_started nat
  | All_stopped

datatype event =
    Publish string payload "exn option"
  | Log_info log_record
  | Log_error log_record
  | Sleep int

definition data_topic :: "device \<Rightarrow> string" where
  "data_topic dev = ''devices/'' @ device_type dev @ ''/'' @ device_id dev @ ''/data''"

text \<open>\<open>time.sleep(secs)\<close> raises \<open>ValueError\<close> for a negative argument.\<close>

definition time_sleep :: "int \<Rightarrow> exn + event" where
  "time_sleep secs = (if secs < 0 then Inl ValueError else Inr (Sleep secs))"

text \<open>
  The body of the \<open>while\<close> loop of \<open>_run\<close>: the \<open>try\<close> block up to the first exception,
  then the handler. It returns the events of the tick and the device as the tick leaves it.
\<close>

definition handler :: "device \<Rightarrow> exn \<Rightarrow> event list" where
  "handler dev e = [Log_error (Send_error (device_id dev) e), Sleep 1]"

definition loop_body :: "tick_env \<Rightarrow> device \<Rightarrow> event list \<times> device" where
  "loop_body env dev =
     (case generate_data env dev of
        (Inl e, dev1) \<Rightarrow> (handler dev1 e, dev1)
      | (Inr data, dev1) \<Rightarrow>
          (let topic = data_topic dev1;
               payload = json_dumps data;
               call = Publish topic payload (publish_result env)
           in case publish_result env of
                Some e \<Rightarrow> (call # handler dev1 e, dev1)
              | None \<Rightarrow>
                  (case time_sleep (publish_interval dev1) of
                     Inl e \<Rightarrow>
                       ([call, Log_info (Data_sent (device_id dev1) payload)]
                          @ handler dev1 e, dev1)
                   | Inr sl \<Rightarrow>
                       ([call, Log_info (Data_sent (device_id dev1) payload), sl], dev1))))"

section \<open>The system: devices, their threads, the manager\<close>

text \<open>
  Devices are objects: the heap holds them and an address is an index into it. A thread
  created by \<open>start\<close> runs \<open>_run\<close> of one device; it is at the test of the \<open>while\<close>, inside
  the body, or it has returned. The trace lists the events in the order they happen, each
  with the thread it comes from. \<open>devices\<close> is the list of the manager.
\<close>

datatype loop_pc = Loop_test | Loop_body | Finished

record loop_thread =
  target :: addr
  pc :: loop_pc

datatype origin = Main_thread | Loop_of addr

record system =
  heap :: "device list"
  devices :: "addr list"
  threads :: "loop_thread list"
  trace :: "(origin \<times> event) list"

definition update_device :: "addr \<Rightarrow> (device \<Rightarrow> device) \<Rightarrow> system \<Rightarrow> system" where
  "update_device a f s = s\<lparr>heap := (heap s)[a := f (heap s ! a)]\<rparr>"

definition emit :: "origin \<Rightarrow> event list \<Rightarrow> system \<Rightarrow> system" where
  "emit who evs s = s\<lparr>trace := trace s @ map (Pair who) evs\<rparr>"

text \<open>
  \<open>start\<close>: the flag is set, a new thread is created at the top of \<open>_run\<close>, the handle
  is stored in the device, and the start is logged.
\<close>

definition start :: "addr \<Rightarrow> system \<Rightarrow> system" where
  "start a s =
     (let s1 = update_device a (\<lambda>d. d\<lparr>is_running := True\<rparr>) s;
          t = length (threads s1);
          s2 = update_device a (\<lambda>d. d\<lparr>thread := Some t\<rparr>) s1;
          s3 = s2\<lparr>threads := threads s2 @ [\<lparr>target = a, pc = Loop_test\<rparr>]\<rparr>
      in emit Main_thread [Log_info (Device_started (device_id (heap s3 ! a)))] s3)"

text \<open>
  \<open>stop\<close> is split where it can block. \<open>stop_set_flag\<close> clears the flag. \<open>join_ready\<close>
  says that \<open>if self.thread: self.thread.join()\<close> returns: there is no thread, or the
  thread has returned from \<open>_run\<close>. It looks at the handle the device holds when the join
  returns, which is the one \<open>stop\<close> read when it began to wait unless the device was
  started again in between. \<open>stop_finish\<close> is the rest of the method. \<open>stop\<close> is the
  whole call when it does not have to wait, and \<open>None\<close> when the caller blocks.
\<close>

definition stop_set_flag :: "addr \<Rightarrow> system \<Rightarrow> system" where
  "stop_set_flag a s = update_device a (\<lambda>d. d\<lparr>is_running := False\<rparr>) s"

definition join_ready :: "addr \<Rightarrow> system \<Rightarrow> bool" where
  "join_ready a s =
     (case thread (heap s ! a) of
        None \<Rightarrow> True
      | Some t \<Rightarrow> t < length (threads s) \<and> pc (threads s ! t) = Finished)"

definition stop_finish :: "addr \<Rightarrow> system \<Rightarrow> system" where
  "stop_finish a s = emit Main_thread [Log_info (Device_stopped (device_id (heap s ! a)))] s"

definition stop :: "addr \<Rightarrow> system \<Rightarrow> system option" where
  "stop a s =
     (let s1 = stop_set_flag a s
      in if join_ready a s1 then Some (stop_finish a s1) else None)"

text \<open>
  One step of a thread in \<open>_run\<close>: at the test it reads the flag and enters the body or
  returns; in the body it runs one tick (generate, publish, log, sleep, with the handler
  on an exception) and comes back to the test. The handler catches \<open>Exception\<close>, which
  is what \<open>exn\<close> stands for.
\<close>

definition set_pc :: "nat \<Rightarrow> loop_pc \<Rightarrow> system \<Rightarrow> system" where
  "set_pc t p s = s\<lparr>threads := (threads s)[t := (threads s ! t)\<lparr>pc := p\<rparr>]\<rparr>"

definition run_step :: "nat \<Rightarrow> tick_env \<Rightarrow> system \<Rightarrow> system option" where
  "run_step t env s =
     (if t < length (threads s) \<and> target (threads s ! t) < length (heap s)
      then
        (let a = target (threads s ! t)
         in case pc (threads s ! t) of
              Loop_test \<Rightarrow>
                Some (set_pc t (if is_running (heap s ! a) then Loop_body else Finished) s)
            | Loop_body \<Rightarrow>
                (case loop_body env (heap s ! a) of
                   (evs, dev1) \<Rightarrow>
                     Some (set_pc t Loop_test
                            (emit (Loop_of a) evs (update_device a (\<lambda>d. dev1) s))))
            | Finished \<Rightarrow> None)
      else None)"

subsection \<open>The manager\<close>

definition add_device :: "addr \<Rightarrow> system \<Rightarrow> system" where
  "add_device a s =
     emit Main_thread [Log_info (Device_added (device_id (heap s ! a)))]
       (s\<lparr>devices := devices s @ [a]\<rparr>)"

subsection \<open>Executions\<close>

text \<open>
  An execution is a list of actions: the calls of the controlling thread (with \<open>stop\<close> as
  its two halves) and the steps of the loop threads, in the order the scheduler picks. An
  action that cannot happen in a state (a \<open>join\<close> that still blocks, a step of a thread
  that has returned) ends the execution with \<open>None\<close>.
\<close>

datatype action =
    Start addr
  | Stop_set_flag addr
  | Stop_return addr
  | Run nat tick_env
  | Say event

definition exec1 :: "action \<Rightarrow> system \<Rightarrow> system option" where
  "exec1 act s =
     (case act of
        Start a \<Rightarrow> if a < length (heap s) then Some (start a s) else None
      | Stop_set_flag a \<Rightarrow> if a < length (heap s) then Some (stop_set_flag a s) else None
      | Stop_return a \<Rightarrow>
          if a < length (heap s) \<and> join_ready a s then Some (stop_finish a s) else None
      | Run t env \<Rightarrow> run_step t env s
      | Say e \<Rightarrow> Some (emit Main_thread [e] s))"

fun exec :: "action list \<Rightarrow> system \<Rightarrow> system option" where
  "exec [] s = Some s"
| "exec (act # acts) s = (case exec1 act s of None \<Rightarrow> None | Some s1 \<Rightarrow> exec acts s1)"

text \<open>
  \<open>start_all_devices\<close> and \<open>stop_all_devices\<close> as the calls the controlling thread
  makes, in order.
\<close>

definition start_all_devices :: "system \<Rightarrow> action list" where
  "start_all_devices s =
     map Start (devices s) @ [Say (Log_info (All_started (length (devices s))))]"

definition stop_all_devices :: "system \<Rightarrow> action list" where
  "stop_all_devices s =
     concat (map (\<lambda>a. [Stop_set_flag a, Stop_return a]) (devices s))
       @ [Say (Log_info All_stopped)]"

subsection \<open>Observations\<close>

definition live :: "addr \<Rightarrow> loop_thread \<Rightarrow> bool" where
  "live a th = (target th = a \<and> pc th \<noteq> Finished)"

definition live_loops :: "addr \<Rightarrow> system \<Rightarrow> nat" where
  "live_loops a s = length (filter (live a) (threads s))"

fun is_publish :: "event \<Rightarrow> bool" where
  "is_publish (Publish topic p r) = True"
| "is_publish e = False"

definition published_by :: "addr \<Rightarrow> system \<Rightarrow> event list" where
  "published_by a s = map snd (filter (\<lambda>(who, e). who = Loop_of a \<and> is_publish e) (trace s))"



subsection \<open>Sample inputs\<close>

definition noon :: datetime where
  "noon = \<lparr>year = 2024, month = 3, day = 7, hour = 12, minute = 0, second = 0,
           microsecond = 0\<rparr>"

definition late :: datetime where
  "late = \<lparr>year = 2024, month = 3, day = 7, hour = 23, minute = 5, second = 9,
           microsecond = 250000\<rparr>"

definition env_a :: tick_env where
  "env_a = \<lparr>raw1 = 2 ^ 52 + 2 ^ 48, raw2 = 0, now1 = noon, now2 = noon,
            publish_result = None\<rparr>"

definition env_b :: tick_env where
  "env_b = \<lparr>raw1 = 0, raw2 = 2 ^ 52, now1 = late, now2 = late,
            publish_result = Some (TransportError ''broker down'')\<rparr>"

definition env_c :: tick_env where
  "env_c = \<lparr>raw1 = 7, raw2 = 3, now1 = noon, now2 = late, publish_result = None\<rparr>"

definition sys_dup :: system where
  "sys_dup = \<lparr>heap = [LightSensor ''light_sensor_001'' 8, LightSensor ''light_sensor_001'' 6],
              devices = [0], threads = [], trace = []\<rparr>"

subsection \<open>Schedules of the controlling thread\<close>

text \<open>
  \<open>control sched\<close> is what the controlling thread does in a schedule: everything except
  the steps of the loop threads.
\<close>

fun is_run :: "action \<Rightarrow> bool" where
  "is_run (Run t env) = True"
| "is_run act = False"

definition control :: "action list \<Rightarrow> action list" where
  "control sched = filter (\<lambda>act. \<not> is_run act) sched"

subsection \<open>Sample systems and runs\<close>

text \<open>
  Two devices, a motion sensor at address 0 and a smart switch at address 1, and the
  states that some runs of them lead to, written out.
\<close>

definition sys_two :: system where
  "sys_two = \<lparr>heap = [MotionSensor ''motion_sensor_001'' 10, SmartSwitch ''smart_switch_001'' 15],
              devices = [0, 1], threads = [], trace = []\<rparr>"

definition motion_payload :: payload where
  "motion_payload =
     Json_text
       (JObj [(''device_id'', JStr ''motion_sensor_001''),
              (''device_type'', JStr ''motion''),
              (''timestamp'', JStr ''2024-03-07T12:00:00''),
              (''data'', JObj [(''motion_detected'', JBool False),
                               (''detection_count'', JInt 0)])])"

definition switch_payload :: payload where
  "switch_payload =
     Json_text
       (JObj [(''device_id'', JStr ''smart_switch_001''),
              (''device_type'', JStr ''smart_switch''),
              (''timestamp'', JStr ''2024-03-07T23:05:09.250000''),
              (''data'', JObj [(''switch_state'', JStr ''ON''),
                               (''power_consumption'', JNum (105 / 2)),
                               (''unit'', JStr ''W'')])])"

definition broker_down :: exn where
  "broker_down = TransportError ''broker down''"

definition motion_tick :: "(origin \<times> event) list" where
  "motion_tick =
     [(Loop_of 0, Publish ''devices/motion/motion_sensor_001/data'' motion_payload None),
      (Loop_of 0, Log_info (Data_sent ''motion_sensor_001'' motion_payload)),
      (Loop_of 0, Sleep 10)]"

definition switch_tick :: "(origin \<times> event) list" where
  "switch_tick =
     [(Loop_of 1,
       Publish ''devices/smart_switch/smart_switch_001/data'' switch_payload
         (Some broker_down)),
      (Loop_of 1, Log_error (Send_error ''smart_switch_001'' broker_down)),
      (Loop_of 1, Sleep 1)]"

definition demo_waiting :: system where
  "demo_waiting =
     \<lparr>heap = [(MotionSensor ''motion_sensor_001'' 10)\<lparr>thread := Some 0\<rparr>,
              SmartSwitch ''smart_switch_001'' 15],
      devices = [0, 1],
      threads = [\<lparr>target = 0, pc = Finished\<rparr>],
      trace = (Main_thread, Log_info (Device_started ''motion_sensor_001'')) # motion_tick\<rparr>"

definition demo_returned :: system where
  "demo_returned =
     demo_waiting\<lparr>trace := trace demo_waiting
                      @ [(Main_thread, Log_info (Device_stopped ''motion_sensor_001''))]\<rparr>"

definition demo_post :: "action list" where
  "demo_post = [Start 1, Run 1 env_c, Run 1 env_b]"

definition demo_final :: system where
  "demo_final =
     \<lparr>heap = [(MotionSensor ''motion_sensor_001'' 10)\<lparr>thread := Some 0\<rparr>,
              (SmartSwitch ''smart_switch_001'' 15)
                \<lparr>is_running := True, thread := Some 1,
                 sensor := Smart_switch True (105 / 2)\<rparr>],
      devices = [0, 1],
      threads = [\<lparr>target = 0, pc = Finished\<rparr>, \<lparr>target = 1, pc = Loop_test\<rparr>],
      trace = trace demo_returned
                @ (Main_thread, Log_info (Device_started ''smart_switch_001'')) # switch_tick\<rparr>"

definition demo_sched :: "action list" where
  "demo_sched =
     [Start 0, Run 0 env_c, Start 1, Say (Log_info (All_started 2)), Run 1 env_c,
      Run 0 env_c, Stop_set_flag 0, Run 1 env_b, Run 0 env_c, Stop_return 0,
      Stop_set_flag 1, Run 1 env_c, Stop_return 1, Say (Log_info All_stopped)]"

definition demo_stopped :: system where
  "demo_stopped =
     \<lparr>heap = [(MotionSensor ''motion_sensor_001'' 10)\<lparr>thread := Some 0\<rparr>,
              (SmartSwitch ''smart_switch_001'' 15)
                \<lparr>thread := Some 1, sensor := Smart_switch True (105 / 2)\<rparr>],
      devices = [0, 1],
      threads = [\<lparr>target = 0, pc = Finished\<rparr>, \<lparr>target = 1, pc = Finished\<rparr>],
      trace = [(Main_thread, Log_info (Device_started ''motion_sensor_001'')),
               (Main_thread, Log_info (Device_started ''smart_switch_001'')),
               (Main_thread, Log_info (All_started 2))]
              @ motion_tick @ switch_tick
              @ [(Main_thread, Log_info (Device_stopped ''motion_sensor_001'')),
                 (Main_thread, Log_info (Device_stopped ''smart_switch_001'')),
                 (Main_thread, Log_info All_stopped)]\<rparr>"

definition demo_later :: system where
  "demo_later =
     demo_stopped\<lparr>trace := trace demo_stopped
                      @ [(Main_thread, Log_info (Device_stopped ''motion_sensor_001''))]\<rparr>"

definition demo_in_body :: system where
  "demo_in_body =
     \<lparr>heap = [MotionSensor ''motion_sensor_001'' 10,
              (SmartSwitch ''smart_switch_001'' 15)\<lparr>is_running := True, thread := Some 0\<rparr>],
      devices = [0, 1],
      threads = [\<lparr>target = 1, pc = Loop_body\<rparr>],
      trace = [(Main_thread, Log_info (Device_started ''smart_switch_001''))]\<rparr>"

section \<open>Numbers: draws and rounding\<close>










lemma floor_rat_numeral: "\<lfloor>(numeral a :: rat) / numeral b\<rfloor> = numeral a div numeral b"
  by (metis floor_divide_of_int_eq of_int_numeral)

lemma randbelow_less: "0 < n \<Longrightarrow> randbelow n raw < n"
  by (simp add: randbelow_def)

lemma random_randint_range:
  assumes "a \<le> b"
  shows "a \<le> random_randint a b raw \<and> random_randint a b raw \<le> b"
proof -
  have "randbelow (nat (b - a + 1)) raw < nat (b - a + 1)"
    using assms by (intro randbelow_less) simp
  then show ?thesis using assms by (simp add: random_randint_def)
qed

lemma random_choice_two: "random_choice [x, y] raw = (if even raw then x else y)"
proof (cases "even raw")
  case True
  then have "raw mod Suc (Suc 0) = 0" by presburger
  then show ?thesis using True by (simp add: random_choice_def randbelow_def)
next
  case False
  then have "raw mod Suc (Suc 0) = Suc 0" by presburger
  then show ?thesis using False by (simp add: random_choice_def randbelow_def)
qed

text \<open>The equations that evaluate the model on the sample inputs.\<close>

lemmas model_defs = exec1_def start_def stop_set_flag_def stop_finish_def join_ready_def
  run_step_def set_pc_def emit_def update_device_def loop_body_def handler_def time_sleep_def
  generate_data_def generate_motion_def generate_smart_switch_def generate_light_def
  generate_temperature_humidity_def reading_def data_topic_def json_dumps_def
  MotionSensor_def SmartSwitch_def VirtualDevice_def sys_two_def env_a_def env_b_def env_c_def
  random_choice_two random_randint_def randbelow_def random_random_def random_uniform_def
  py_round_def round_half_even_def floor_rat_numeral Let_def live_loops_def live_def
  published_by_def

lemmas sample_defs = motion_payload_def switch_payload_def broker_down_def motion_tick_def
  switch_tick_def demo_waiting_def demo_returned_def demo_post_def demo_final_def
  demo_sched_def demo_stopped_def demo_later_def demo_in_body_def control_def
  start_all_devices_def stop_all_devices_def noon_def late_def isoformat_def pad2_def
  pad4_def pad6_def digit_char_def

section \<open>The reading generators\<close>





text \<open>
  C5. A motion reading has detection_count 0 whenever motion_detected is false, and a
  detection_count randint(0, 5), between 0 and 5, whenever it is true; the device comes
  back unchanged, so the generator keeps no state from tick to tick.
\<close>

theorem motion_reading:
  assumes "sensor dev = Motion"
  shows "let motion_detected = random_choice [True, False] (raw1 env);
             detection_count = (if motion_detected then random_randint 0 5 (raw2 env) else 0)
         in generate_data env dev =
              (Inr (reading dev (now1 env)
                     [(''motion_detected'', JBool motion_detected),
                      (''detection_count'', JInt detection_count)]), dev)
            \<and> (\<not> motion_detected \<longrightarrow> detection_count = 0)
            \<and> (motion_detected \<longrightarrow> 0 \<le> detection_count \<and> detection_count \<le> 5)"
proof -
  have r: "0 \<le> random_randint 0 5 (raw2 env) \<and> random_randint 0 5 (raw2 env) \<le> 5"
    by (rule random_randint_range) simp
  have g: "generate_data env dev =
      (Inr (reading dev (now1 env)
         [(''motion_detected'', JBool (random_choice [True, False] (raw1 env))),
          (''detection_count'',
             JInt (if random_choice [True, False] (raw1 env)
                   then random_randint 0 5 (raw2 env) else 0))]), dev)"
    by (simp add: generate_data_def assms generate_motion_def Let_def)
  show ?thesis
    unfolding Let_def using r g by simp
qed

theorem motion_reading_witness:
  "sensor (MotionSensor ''motion_sensor_001'' 10) = Motion
   \<and> generate_data env_b (MotionSensor ''motion_sensor_001'' 10) =
       (Inr (reading (MotionSensor ''motion_sensor_001'' 10) late
          [(''motion_detected'', JBool True), (''detection_count'', JInt 4)]),
        MotionSensor ''motion_sensor_001'' 10)"
  using motion_reading [of "MotionSensor ''motion_sensor_001'' 10" env_b]
  by (simp add: Let_def env_b_def MotionSensor_def random_choice_def random_randint_def
      randbelow_def)



section \<open>The registry\<close>

text \<open>
  C2, as the code has it. add_device(d) always appends d at the end of the manager's list
  and logs it; it has no failure case and makes no check on ids, so a device whose id is
  already registered is added as well and the list grows by one.
\<close>

theorem add_device_appends:
  "devices (add_device a s) = devices s @ [a]
   \<and> heap (add_device a s) = heap s \<and> threads (add_device a s) = threads s
   \<and> trace (add_device a s)
       = trace s @ [(Main_thread, Log_info (Device_added (device_id (heap s ! a))))]"
  by (simp add: add_device_def emit_def)

text \<open>
  C2 as stated fails: the registry holds the device at address 0; adding the device at
  address 1, which has the same id, succeeds and changes the registry.
\<close>

theorem add_device_duplicate_id:
  "0 \<in> set (devices sys_dup)
   \<and> device_id (heap sys_dup ! 0) = device_id (heap sys_dup ! 1)
   \<and> devices (add_device 1 sys_dup) = [0, 1]
   \<and> devices (add_device 1 sys_dup) \<noteq> devices sys_dup"
  by (simp add: sys_dup_def add_device_def emit_def LightSensor_def VirtualDevice_def)

section \<open>One tick of the loop\<close>

lemma generate_data_fields:
  assumes "generate_data env d = (r, d1)"
  shows "device_id d1 = device_id d \<and> device_type d1 = device_type d
         \<and> publish_interval d1 = publish_interval d
         \<and> is_running d1 = is_running d \<and> thread d1 = thread d"
  using assms
  by (cases "sensor d") (auto simp: generate_data_def generate_smart_switch_def Let_def)

lemma loop_body_fields:
  assumes "loop_body env d = (evs, d1)"
  shows "device_id d1 = device_id d \<and> device_type d1 = device_type d
         \<and> publish_interval d1 = publish_interval d
         \<and> is_running d1 = is_running d \<and> thread d1 = thread d"
proof -
  obtain r d2 where g: "generate_data env d = (r, d2)" by (cases "generate_data env d")
  have "d1 = d2"
    using assms g
    by (auto simp: loop_body_def Let_def split: sum.splits option.splits)
  then show ?thesis using generate_data_fields [OF g] by simp
qed

lemma start_threads: "threads (start a s) = threads s @ [\<lparr>target = a, pc = Loop_test\<rparr>]"
  by (simp add: start_def update_device_def emit_def Let_def)

lemma start_heap:
  "heap (start a s)
     = (heap s)[a := (heap s ! a)\<lparr>is_running := True, thread := Some (length (threads s))\<rparr>]"
  by (cases "a < length (heap s)")
     (simp_all add: start_def update_device_def emit_def Let_def list_update_beyond)

lemma start_devices: "devices (start a s) = devices s"
  by (simp add: start_def update_device_def emit_def Let_def)


lemma stop_set_flag_simps:
  "heap (stop_set_flag a s) = (heap s)[a := (heap s ! a)\<lparr>is_running := False\<rparr>]"
  "threads (stop_set_flag a s) = threads s"
  "trace (stop_set_flag a s) = trace s"
  "devices (stop_set_flag a s) = devices s"
  by (simp_all add: stop_set_flag_def update_device_def)

lemma stop_finish_simps:
  "heap (stop_finish a s) = heap s"
  "threads (stop_finish a s) = threads s"
  "trace (stop_finish a s)
     = trace s @ [(Main_thread, Log_info (Device_stopped (device_id (heap s ! a))))]"
  "devices (stop_finish a s) = devices s"
  by (simp_all add: stop_finish_def emit_def)

text \<open>The three ways a loop thread can step.\<close>

lemma run_step_cases:
  assumes "run_step t env s = Some s1"
  obtains
    (test) "t < length (threads s)" "target (threads s ! t) < length (heap s)"
      "pc (threads s ! t) = Loop_test"
      "s1 = set_pc t (if is_running (heap s ! target (threads s ! t)) then Loop_body else Finished) s"
  | (body) evs d1 where "t < length (threads s)" "target (threads s ! t) < length (heap s)"
      "pc (threads s ! t) = Loop_body"
      "loop_body env (heap s ! target (threads s ! t)) = (evs, d1)"
      "s1 = set_pc t Loop_test
              (emit (Loop_of (target (threads s ! t))) evs
                 (update_device (target (threads s ! t)) (\<lambda>d. d1) s))"
  using assms
  by (auto simp: run_step_def Let_def split: if_splits loop_pc.splits prod.splits)

lemma run_step_heap_length:
  "run_step t env s = Some s1 \<Longrightarrow> length (heap s1) = length (heap s)"
  by (erule run_step_cases) (simp_all add: set_pc_def emit_def update_device_def)


lemma run_step_device:
  assumes "run_step t env s = Some s1"
  shows "thread (heap s1 ! a) = thread (heap s ! a)
         \<and> is_running (heap s1 ! a) = is_running (heap s ! a)
         \<and> device_id (heap s1 ! a) = device_id (heap s ! a)"
  using assms
proof (cases rule: run_step_cases)
  case test
  then show ?thesis by (simp add: set_pc_def)
next
  case (body evs d1)
  then show ?thesis
    using loop_body_fields [OF body(4)]
    by (cases "a = target (threads s ! t)")
       (simp_all add: set_pc_def emit_def update_device_def)
qed










lemma emit_simps:
  "heap (emit who evs s) = heap s"
  "threads (emit who evs s) = threads s"
  "devices (emit who evs s) = devices s"
  "trace (emit who evs s) = trace s @ map (Pair who) evs"
  by (simp_all add: emit_def)


lemma generate_data_reading:
  assumes "sensor dev \<noteq> Base_device"
  shows "\<exists>d dev1. generate_data env dev = (Inr (reading dev (stamp env dev) d), dev1)
           \<and> device_id dev1 = device_id dev \<and> device_type dev1 = device_type dev
           \<and> publish_interval dev1 = publish_interval dev
           \<and> is_running dev1 = is_running dev \<and> thread dev1 = thread dev"
  using assms
  by (cases "sensor dev")
     (simp_all add: generate_data_def generate_temperature_humidity_def generate_light_def
        generate_motion_def generate_smart_switch_def Let_def reading_def stamp_def)

lemma loop_body_publishes:
  assumes "generate_data env dev = (Inr data, dev1)"
  shows "\<exists>rest. loop_body env dev
           = (Publish (data_topic dev1) (json_dumps data) (publish_result env) # rest, dev1)
           \<and> filter is_publish rest = []"
proof (cases "publish_result env")
  case None
  then show ?thesis
    using assms by (cases "publish_interval dev1 < 0")
      (simp_all add: loop_body_def Let_def handler_def time_sleep_def)
next
  case (Some e)
  then show ?thesis
    using assms by (simp add: loop_body_def Let_def handler_def)
qed

text \<open>
  C8. On every tick of a device of one of the four sensor classes, the loop calls publish
  exactly once, with the topic devices/<device_type>/<device_id>/data, which depends on
  the type and id of the device only and is the same on every tick, and with the
  serialisation of a record whose fields are exactly device_id, device_type, timestamp and
  data, the timestamp being the ISO format of a clock read made while the reading is
  generated.
\<close>

theorem tick_publishes_reading:
  assumes "sensor dev \<noteq> Base_device"
  shows "\<exists>d rest dev1.
           loop_body env dev =
             (Publish (''devices/'' @ device_type dev @ ''/'' @ device_id dev @ ''/data'')
                (json_dumps
                   (JObj [(''device_id'', JStr (device_id dev)),
                          (''device_type'', JStr (device_type dev)),
                          (''timestamp'', JStr (isoformat (stamp env dev))),
                          (''data'', JObj d)]))
                (publish_result env) # rest, dev1)
           \<and> filter is_publish rest = []
           \<and> device_type dev1 = device_type dev \<and> device_id dev1 = device_id dev"
proof -
  obtain d dev1 where g: "generate_data env dev = (Inr (reading dev (stamp env dev) d), dev1)"
    and f: "device_id dev1 = device_id dev" "device_type dev1 = device_type dev"
    using generate_data_reading [OF assms, of env] by blast
  obtain rest where r: "loop_body env dev
      = (Publish (data_topic dev1) (json_dumps (reading dev (stamp env dev) d))
           (publish_result env) # rest, dev1)"
    and n: "filter is_publish rest = []"
    using loop_body_publishes [OF g] by blast
  have t: "data_topic dev1 = ''devices/'' @ device_type dev @ ''/'' @ device_id dev @ ''/data''"
    by (simp only: data_topic_def f)
  have r1: "loop_body env dev =
      (Publish (''devices/'' @ device_type dev @ ''/'' @ device_id dev @ ''/data'')
         (json_dumps
            (JObj [(''device_id'', JStr (device_id dev)),
                   (''device_type'', JStr (device_type dev)),
                   (''timestamp'', JStr (isoformat (stamp env dev))),
                   (''data'', JObj d)]))
         (publish_result env) # rest, dev1)"
    using r by (simp only: t reading_def)
  have "loop_body env dev =
      (Publish (''devices/'' @ device_type dev @ ''/'' @ device_id dev @ ''/data'')
         (json_dumps
            (JObj [(''device_id'', JStr (device_id dev)),
                   (''device_type'', JStr (device_type dev)),
                   (''timestamp'', JStr (isoformat (stamp env dev))),
                   (''data'', JObj d)]))
         (publish_result env) # rest, dev1)
      \<and> filter is_publish rest = []
      \<and> device_type dev1 = device_type dev \<and> device_id dev1 = device_id dev"
    by (intro conjI) (rule r1, rule n, rule f(2), rule f(1))
  then show ?thesis
    by (rule_tac x = d in exI, rule_tac x = rest in exI, rule_tac x = dev1 in exI)
qed

theorem tick_publishes_reading_witness:
  "sensor (TemperatureHumiditySensor ''temp_sensor_001'' 5) \<noteq> Base_device
   \<and> loop_body env_a (TemperatureHumiditySensor ''temp_sensor_001'' 5) =
       ([Publish ''devices/temperature_humidity/temp_sensor_001/data''
           (json_dumps
              (JObj [(''device_id'', JStr ''temp_sensor_001''),
                     (''device_type'', JStr ''temperature_humidity''),
                     (''timestamp'', JStr ''2024-03-07T12:00:00''),
                     (''data'', JObj [(''temperature'', JNum (251 / 10)),
                                      (''humidity'', JNum 55),
                                      (''unit_temp'', JStr degree_celsius),
                                      (''unit_humidity'', JStr ''%'')])]))
           None,
         Log_info (Data_sent ''temp_sensor_001''
           (json_dumps
              (JObj [(''device_id'', JStr ''temp_sensor_001''),
                     (''device_type'', JStr ''temperature_humidity''),
                     (''timestamp'', JStr ''2024-03-07T12:00:00''),
                     (''data'', JObj [(''temperature'', JNum (251 / 10)),
                                      (''humidity'', JNum 55),
                                      (''unit_temp'', JStr degree_celsius),
                                      (''unit_humidity'', JStr ''%'')])]))),
         Sleep 5],
        TemperatureHumiditySensor ''temp_sensor_001'' 5)"
  using tick_publishes_reading [of "TemperatureHumiditySensor ''temp_sensor_001'' 5" env_a]
  by (simp add: TemperatureHumiditySensor_def VirtualDevice_def env_a_def noon_def
      loop_body_def generate_data_def generate_temperature_humidity_def Let_def
      reading_def data_topic_def stamp_def isoformat_def digit_char_def pad2_def pad4_def
      time_sleep_def random_uniform_def random_random_def py_round_def round_half_even_def
      floor_rat_numeral)



section \<open>Starting and stopping\<close>


lemma nth_update_thread:
  "thread ((xs[b := (xs ! b)\<lparr>is_running := v\<rparr>]) ! a) = thread (xs ! a)"
  by (cases "a = b"; cases "b < length xs") (simp_all add: list_update_beyond)

lemma exec1_heap_length:
  assumes "exec1 act s = Some s1"
  shows "length (heap s1) = length (heap s)"
  using assms
  by (cases act)
     (auto simp: exec1_def start_heap stop_set_flag_simps stop_finish_simps emit_simps
        run_step_heap_length split: if_splits)

lemma exec1_thread_field:
  assumes "exec1 act s = Some s1" "act \<noteq> Start a"
  shows "thread (heap s1 ! a) = thread (heap s ! a)"
proof (cases act)
  case (Start b)
  then have "b \<noteq> a" using assms(2) by simp
  then show ?thesis
    using assms(1) Start by (auto simp: exec1_def start_heap split: if_splits)
next
  case (Stop_set_flag b)
  then show ?thesis
    using assms(1)
    by (auto simp: exec1_def stop_set_flag_simps nth_update_thread split: if_splits)
next
  case (Stop_return b)
  then show ?thesis
    using assms(1) by (auto simp: exec1_def stop_finish_simps split: if_splits)
next
  case (Run t env)
  then show ?thesis
    using assms(1) run_step_device [of t env s s1 a] by (simp add: exec1_def)
next
  case (Say e)
  then show ?thesis
    using assms(1) by (auto simp: exec1_def emit_simps)
qed





lemma start_live_loops: "live_loops a (start a s) = live_loops a s + 1"
  by (simp add: live_loops_def start_threads live_def)



lemma published_by_append:
  "published_by a (s\<lparr>trace := trace s @ xs\<rparr>)
     = published_by a s @ map snd (filter (\<lambda>(who, e). who = Loop_of a \<and> is_publish e) xs)"
  by (simp add: published_by_def)




lemma nth_update_is_running:
  "b \<noteq> a \<Longrightarrow> is_running ((xs[b := d]) ! a) = is_running (xs ! a)"
  by simp




subsection \<open>Executions\<close>


lemma exec_heap_length: "exec acts s = Some s1 \<Longrightarrow> length (heap s1) = length (heap s)"
proof (induction acts arbitrary: s)
  case Nil
  then show ?case by simp
next
  case (Cons act acts)
  then obtain s' where 1: "exec1 act s = Some s'" and 2: "exec acts s' = Some s1"
    by (auto split: option.splits)
  show ?case using Cons.IH [OF 2] exec1_heap_length [OF 1] by simp
qed





lemma exec_thread_field:
  "exec acts s = Some s1 \<Longrightarrow> Start a \<notin> set acts
     \<Longrightarrow> thread (heap s1 ! a) = thread (heap s ! a)"
proof (induction acts arbitrary: s)
  case Nil
  then show ?case by simp
next
  case (Cons act acts)
  then obtain s' where 1: "exec1 act s = Some s'" and 2: "exec acts s' = Some s1"
    by (auto split: option.splits)
  have "thread (heap s' ! a) = thread (heap s ! a)"
    using Cons.prems(2) by (intro exec1_thread_field [OF 1]) auto
  then show ?case using Cons.IH [OF 2] Cons.prems(2) by simp
qed





subsection \<open>The join does not wait for ever\<close>


subsection \<open>Splitting a schedule along its control part\<close>


lemma control_member: "\<not> is_run act \<Longrightarrow> act \<in> set sched \<longleftrightarrow> act \<in> set (control sched)"
  by (simp add: control_def)







subsection \<open>The sample runs\<close>

lemma demo_run_1:
  "exec (Start 0 # [Run 0 env_c, Run 0 env_c] @ Stop_set_flag 0 # [Run 0 env_c]) sys_two
     = Some demo_waiting"
  by (simp add: model_defs sample_defs)





lemma demo_run_6: "exec [Start 1, Run 0 env_c] sys_two = Some demo_in_body"
  by (simp add: model_defs sample_defs)

subsection \<open>start\<close>

text \<open>
  C1, as the code has it. start() never fails and is never a no-op: whether or not the
  device is already running it sets the flag, creates one more thread at the top of the
  loop, and overwrites the handle with it, so the number of threads in the loop of the
  device grows by one. Only a device with no loop running has exactly one afterwards.
\<close>

theorem start_spawns_another_loop:
  assumes "a < length (heap s)"
  shows "exec1 (Start a) s = Some (start a s)
         \<and> is_running (heap (start a s) ! a)
         \<and> thread (heap (start a s) ! a) = Some (length (threads s))
         \<and> threads (start a s) = threads s @ [\<lparr>target = a, pc = Loop_test\<rparr>]
         \<and> live_loops a (start a s) = live_loops a s + 1"
  using assms by (simp add: exec1_def start_heap start_threads start_live_loops)

theorem start_spawns_another_loop_witness:
  "0 < length (heap (start 0 sys_two))
   \<and> is_running (heap (start 0 sys_two) ! 0)
   \<and> live_loops 0 (start 0 sys_two) = 1
   \<and> threads (start 0 (start 0 sys_two))
        = [\<lparr>target = 0, pc = Loop_test\<rparr>, \<lparr>target = 0, pc = Loop_test\<rparr>]
   \<and> thread (heap (start 0 (start 0 sys_two)) ! 0) = Some 1"
  using start_spawns_another_loop [of 0 "start 0 sys_two"]
  by (simp add: model_defs)

text \<open>
  C1 as stated fails: after one start the device is running with one loop; a second start
  leaves two threads in its loop, both reach the body, and both publish.
\<close>

theorem double_start_two_loops:
  "is_running (heap (start 0 sys_two) ! 0)
   \<and> live_loops 0 (start 0 sys_two) = 1
   \<and> live_loops 0 (start 0 (start 0 sys_two)) = 2
   \<and> start 0 (start 0 sys_two) \<noteq> start 0 sys_two
   \<and> map_option (\<lambda>s. map pc (threads s))
        (exec [Start 0, Start 0, Run 0 env_c, Run 1 env_c] sys_two)
       = Some [Loop_body, Loop_body]
   \<and> map_option (\<lambda>s. length (published_by 0 s))
        (exec [Start 0, Start 0, Run 0 env_c, Run 1 env_c, Run 0 env_c, Run 1 env_c] sys_two)
       = Some 2"
  by (simp add: model_defs)

subsection \<open>stop\<close>



text \<open>
  C10. Every constructor leaves the thread handle empty, and only start() sets it. On a
  device that has not been started, stop() does not block and does not raise: it clears
  the flag, skips the join, logs, and changes nothing else in the device or the system.
\<close>

theorem stop_before_any_start:
  assumes "a < length (heap s)" and "thread (heap s ! a) = None"
    and "Start a \<notin> set acts" and "exec acts s = Some u"
  shows "thread (VirtualDevice did ty n) = None
         \<and> thread (TemperatureHumiditySensor did n) = None
         \<and> thread (LightSensor did n) = None \<and> thread (MotionSensor did n) = None
         \<and> thread (SmartSwitch did n) = None
         \<and> stop a u =
             Some (u\<lparr>heap := (heap u)[a := (heap u ! a)\<lparr>is_running := False\<rparr>],
                     trace := trace u
                       @ [(Main_thread, Log_info (Device_stopped (device_id (heap u ! a))))]\<rparr>)"
proof -
  have t: "thread (heap u ! a) = None"
    using exec_thread_field [OF assms(4,3)] assms(2) by simp
  have l: "a < length (heap u)" using exec_heap_length [OF assms(4)] assms(1) by simp
  have "stop a u =
      Some (u\<lparr>heap := (heap u)[a := (heap u ! a)\<lparr>is_running := False\<rparr>],
              trace := trace u
                @ [(Main_thread, Log_info (Device_stopped (device_id (heap u ! a))))]\<rparr>)"
    using t l
    by (simp add: stop_def stop_set_flag_def stop_finish_def join_ready_def
        update_device_def emit_def Let_def)
  then show ?thesis
    by (simp add: VirtualDevice_def TemperatureHumiditySensor_def LightSensor_def
        MotionSensor_def SmartSwitch_def)
qed

theorem stop_before_any_start_witness:
  "thread (heap sys_two ! 1) = None
   \<and> exec [Start 0, Run 0 env_c, Run 0 env_c, Stop_set_flag 0, Run 0 env_c] sys_two
       = Some demo_waiting
   \<and> stop 1 demo_waiting =
       Some (demo_waiting
               \<lparr>trace := trace demo_waiting
                   @ [(Main_thread, Log_info (Device_stopped ''smart_switch_001''))]\<rparr>)"
  using stop_before_any_start [of 1 sys_two
      "[Start 0, Run 0 env_c, Run 0 env_c, Stop_set_flag 0, Run 0 env_c]" demo_waiting]
    demo_run_1
  by (simp add: sys_two_def demo_waiting_def SmartSwitch_def MotionSensor_def
      VirtualDevice_def)

end
